theory Spec2Isabelle
  imports Complex_Main "HOL-Library.Word" "HOL-Library.Signed_Division"
begin

unbundle bit_operations_syntax

section \<open>Strings\<close>

text \<open>
  A Go string is a sequence of bytes; it is modelled as a \<open>string\<close> (a list of 8-bit
  characters).  The functions of package \<open>strings\<close> that the client calls are written
  out below.  Every separator the client passes to \<open>Split\<close>, \<open>SplitN\<close> and
  \<open>Replace\<close> is a one-byte string, so these take a character.
\<close>

definition LF :: char where
  "LF = CHR 0x0A"

definition DQ :: char where
  "DQ = CHR 0x22"

definition HasPrefix :: "string \<Rightarrow> string \<Rightarrow> bool" where
  "HasPrefix s p = (take (length p) s = p)"

definition HasSuffix :: "string \<Rightarrow> string \<Rightarrow> bool" where
  "HasSuffix s p = (length p \<le> length s \<and> drop (length s - length p) s = p)"

definition TrimPrefix :: "string \<Rightarrow> string \<Rightarrow> string" where
  "TrimPrefix s p = (if HasPrefix s p then drop (length p) s else s)"

definition TrimSuffix :: "string \<Rightarrow> string \<Rightarrow> string" where
  "TrimSuffix s p = (if HasSuffix s p then take (length s - length p) s else s)"

text \<open>\<open>strings.Split(s, sep)\<close> for a one-byte \<open>sep\<close>; \<open>Split("", sep)\<close> is \<open>[""]\<close>.\<close>

fun Split :: "string \<Rightarrow> char \<Rightarrow> string list" where
  "Split [] sep = [[]]"
| "Split (c # cs) sep =
     (if c = sep then [] # Split cs sep
      else (case Split cs sep of [] \<Rightarrow> [[c]] | w # ws \<Rightarrow> (c # w) # ws))"

text \<open>\<open>strings.SplitN(s, sep, n)\<close> for a one-byte \<open>sep\<close> and \<open>n \<ge> 0\<close>: at most \<open>n\<close>
  pieces, the last one the unsplit rest; \<open>n = 0\<close> gives no piece at all.\<close>

fun SplitN :: "string \<Rightarrow> char \<Rightarrow> nat \<Rightarrow> string list" where
  "SplitN s sep 0 = []"
| "SplitN s sep (Suc 0) = [s]"
| "SplitN [] sep (Suc (Suc n)) = [[]]"
| "SplitN (c # cs) sep (Suc (Suc n)) =
     (if c = sep then [] # SplitN cs sep (Suc n)
      else (case SplitN cs sep (Suc (Suc n)) of [] \<Rightarrow> [[c]] | w # ws \<Rightarrow> (c # w) # ws))"

text \<open>\<open>strings.Replace(s, old, "", -1)\<close> for a one-byte \<open>old\<close>: every occurrence goes.\<close>

definition RemoveAll :: "string \<Rightarrow> char \<Rightarrow> string" where
  "RemoveAll s old = filter (\<lambda>c. c \<noteq> old) s"

text \<open>\<open>strings.Contains(s, sub)\<close> for a one-byte \<open>sub\<close>.\<close>

definition Contains :: "string \<Rightarrow> char \<Rightarrow> bool" where
  "Contains s sub = (sub \<in> set s)"

text \<open>\<open>strings.Join(xs, sep)\<close>.\<close>

fun Join :: "string list \<Rightarrow> string \<Rightarrow> string" where
  "Join [] sep = []"
| "Join [x] sep = x"
| "Join (x # y # ys) sep = x @ sep @ Join (y # ys) sep"

text \<open>
  White space as \<open>unicode.IsSpace\<close> sees it in a UTF-8 string: the ASCII characters
  tab, line feed, vertical tab, form feed, carriage return and space, and the code points
  U+0085, U+00A0, U+1680, U+2000 to U+200A, U+2028, U+2029, U+202F, U+205F and U+3000 in
  their UTF-8 encoding.  A lead byte of these encodings is never a continuation byte, so
  Go's decoder reaches it at the start of a rune exactly when the bytes stand there.
  \<open>space_len s\<close> is the length in bytes of the white-space rune at the head of \<open>s\<close>, and
  0 when there is none.
\<close>

definition ascii_space :: "char \<Rightarrow> bool" where
  "ascii_space c = (c = CHR 0x09 \<or> c = CHR 0x0A \<or> c = CHR 0x0B \<or> c = CHR 0x0C
     \<or> c = CHR 0x0D \<or> c = CHR 0x20)"

fun space_len :: "string \<Rightarrow> nat" where
  "space_len [] = 0"
| "space_len [a] = (if ascii_space a then 1 else 0)"
| "space_len [a, b] =
     (if ascii_space a then 1
      else if a = CHR 0xC2 \<and> (b = CHR 0x85 \<or> b = CHR 0xA0) then 2 else 0)"
| "space_len (a # b # c # r) =
     (if ascii_space a then 1
      else if a = CHR 0xC2 \<and> (b = CHR 0x85 \<or> b = CHR 0xA0) then 2
      else if a = CHR 0xE1 \<and> b = CHR 0x9A \<and> c = CHR 0x80 then 3
      else if a = CHR 0xE2 \<and> b = CHR 0x80
              \<and> (of_char c \<in> {0x80 .. (0x8A :: nat)} \<or> c = CHR 0xA8 \<or> c = CHR 0xA9
                   \<or> c = CHR 0xAF) then 3
      else if a = CHR 0xE2 \<and> b = CHR 0x81 \<and> c = CHR 0x9F then 3
      else if a = CHR 0xE3 \<and> b = CHR 0x80 \<and> c = CHR 0x80 then 3
      else 0)"

text \<open>The same for the rune that ends the string, as \<open>DecodeLastRuneInString\<close> finds it.\<close>

definition space_len_end :: "string \<Rightarrow> nat" where
  "space_len_end s =
     (let n = length s in
      if 1 \<le> n \<and> space_len (drop (n - 1) s) = 1 then 1
      else if 2 \<le> n \<and> space_len (drop (n - 2) s) = 2 then 2
      else if 3 \<le> n \<and> space_len (drop (n - 3) s) = 3 then 3
      else 0)"

function TrimLeftSpace :: "string \<Rightarrow> string" where
  "TrimLeftSpace s = (if space_len s = 0 then s else TrimLeftSpace (drop (space_len s) s))"
  by pat_completeness auto
termination
proof (relation "measure length")
  show "wf (measure length)" by simp
next
  fix s :: string
  assume "space_len s \<noteq> 0"
  then have "s \<noteq> []" by auto
  with \<open>space_len s \<noteq> 0\<close> show "(drop (space_len s) s, s) \<in> measure length"
    by simp
qed


function TrimRightSpace :: "string \<Rightarrow> string" where
  "TrimRightSpace s =
     (if space_len_end s = 0 then s
      else TrimRightSpace (take (length s - space_len_end s) s))"
  by pat_completeness auto
termination
proof (relation "measure length")
  show "wf (measure length)" by simp
next
  fix s :: string
  assume a: "space_len_end s \<noteq> 0"
  then have "s \<noteq> []" by (auto simp: space_len_end_def)
  with a show "(take (length s - space_len_end s) s, s) \<in> measure length"
    by simp
qed

text \<open>\<open>strings.TrimSpace\<close>: leading and trailing white space goes.\<close>

definition TrimSpace :: "string \<Rightarrow> string" where
  "TrimSpace s = TrimRightSpace (TrimLeftSpace s)"

text \<open>\<open>strings.Fields\<close>: the maximal runs of bytes that are not white space.  \<open>cur\<close>
  holds the field being read, reversed.\<close>

function Fields_from :: "string \<Rightarrow> string \<Rightarrow> string list" where
  "Fields_from cur s =
     (if s = [] then (if cur = [] then [] else [rev cur])
      else if space_len s = 0 then Fields_from (hd s # cur) (tl s)
      else (if cur = [] then [] else [rev cur]) @ Fields_from [] (drop (space_len s) s))"
  by pat_completeness auto
termination
proof (relation "measure (\<lambda>(cur, s). length s)")
  show "wf (measure (\<lambda>(cur, s). length s))" by simp
next
  fix cur s :: string
  assume "s \<noteq> []"
  then show "((hd s # cur, tl s), (cur, s)) \<in> measure (\<lambda>(cur, s). length s)"
    by simp
next
  fix cur s :: string
  assume "s \<noteq> []" and "space_len s \<noteq> 0"
  then show "(([], drop (space_len s) s), (cur, s)) \<in> measure (\<lambda>(cur, s). length s)"
    by simp
qed

declare TrimLeftSpace.simps [simp del] TrimRightSpace.simps [simp del]
  Fields_from.simps [simp del]

definition Fields :: "string \<Rightarrow> string list" where
  "Fields s = Fields_from [] s"

text \<open>\<open>strings.ToLower\<close> on the ASCII letters.  Go also maps the upper-case letters
  beyond ASCII; the client lower-cases entries of its own status table only, which are
  ASCII.\<close>

definition lower_char :: "char \<Rightarrow> char" where
  "lower_char c =
     (case map_of (zip ''ABCDEFGHIJKLMNOPQRSTUVWXYZ'' ''abcdefghijklmnopqrstuvwxyz'') c of
        None \<Rightarrow> c
      | Some l \<Rightarrow> l)"

definition ToLower :: "string \<Rightarrow> string" where
  "ToLower s = map lower_char s"

section \<open>Numbers\<close>

text \<open>An \<open>int64\<close> is a 64-bit word read in two's complement; Go's \<open>*\<close> wraps around
  and its \<open>/\<close> truncates towards zero.\<close>

type_synonym int64 = "64 word"

definition div64 :: "int64 \<Rightarrow> int64 \<Rightarrow> int64" where
  "div64 a b = word_of_int (sint a sdiv sint b)"

definition is_digit :: "char \<Rightarrow> bool" where
  "is_digit c = (48 \<le> (of_char c :: nat) \<and> (of_char c :: nat) \<le> 57)"

definition digit_val :: "char \<Rightarrow> nat" where
  "digit_val c = of_char c - 48"

definition digits_val :: "string \<Rightarrow> nat" where
  "digits_val ds = foldl (\<lambda>a c. 10 * a + digit_val c) 0 ds"

text \<open>\<open>strconv.ParseInt(s, 10, 64)\<close>: an optional sign, then one decimal digit or more;
  \<open>None\<close> is the error, for bad syntax as for a value outside of \<open>int64\<close>.\<close>

definition ParseInt :: "string \<Rightarrow> int64 option" where
  "ParseInt s =
     (if s = [] then None
      else let neg = (hd s = CHR ''-'');
               ds = (if hd s = CHR ''-'' \<or> hd s = CHR ''+'' then tl s else s)
           in if ds = [] \<or> \<not> list_all is_digit ds then None
              else if neg then
                (if digits_val ds \<le> 2 ^ 63 then Some (word_of_int (- int (digits_val ds)))
                 else None)
              else
                (if digits_val ds < 2 ^ 63 then Some (word_of_int (int (digits_val ds)))
                 else None))"

text \<open>\<open>strconv.Atoi\<close>; Go's \<open>int\<close> has 64 bits on the platforms the program is built
  for.\<close>

definition Atoi :: "string \<Rightarrow> int option" where
  "Atoi s = map_option sint (ParseInt s)"

function dec_nat :: "nat \<Rightarrow> string" where
  "dec_nat n =
     (if n < 10 then [''0123456789'' ! n]
      else dec_nat (n div 10) @ [''0123456789'' ! (n mod 10)])"
  by pat_completeness auto
termination
  by (relation "measure id") simp_all

declare dec_nat.simps [simp del]

text \<open>\<open>strconv.FormatInt(v, 10)\<close>.\<close>

definition FormatInt :: "int64 \<Rightarrow> string" where
  "FormatInt v =
     (if sint v < 0 then CHR ''-'' # dec_nat (nat (- sint v)) else dec_nat (nat (sint v)))"

text \<open>
  \<open>strconv.ParseFloat(s, 64)\<close> on the strings the client passes to it: an optional
  minus sign, digits, a point, digits.  The result is kept as the exact decimal value;
  the rounding to the nearest \<open>float64\<close> is not modelled.  Go reports a range error, and
  the model \<open>None\<close>, when the magnitude is at least \<open>2^1024 - 2^970\<close>, half a unit in
  the last place above the largest \<open>float64\<close>.  On any other string the model gives
  \<open>None\<close>.
\<close>

definition ParseFloat :: "string \<Rightarrow> rat option" where
  "ParseFloat s =
     (let neg = (s \<noteq> [] \<and> hd s = CHR ''-'');
          t = (if neg then tl s else s);
          ip = takeWhile is_digit t;
          r = dropWhile is_digit t
      in if ip = [] \<or> r = [] \<or> hd r \<noteq> CHR ''.'' \<or> tl r = [] \<or> \<not> list_all is_digit (tl r)
         then None
         else let m = of_nat (digits_val ip) + of_nat (digits_val (tl r)) / 10 ^ length (tl r)
              in if m \<ge> 2 ^ 1024 - 2 ^ 970 then None
                 else Some (if neg then - m else m))"

section \<open>Regular expressions\<close>

text \<open>
  The fragment of Go's regular expressions the client uses.  \<open>Digit\<close> is \<open>\d\<close>, the
  ASCII digits.  A pattern between \<open>^\<close> and \<open>$\<close> has to match the whole string (Go's \<open>$\<close>
  is the end of the text, no flag being set), which is what \<open>MatchString\<close> decides here,
  by derivatives.
\<close>

datatype rexp =
    Zero
  | One
  | Chr char
  | Digit
  | Alt rexp rexp
  | Seq rexp rexp
  | Star rexp

definition Opt :: "rexp \<Rightarrow> rexp" where
  "Opt r = Alt One r"

definition Plus :: "rexp \<Rightarrow> rexp" where
  "Plus r = Seq r (Star r)"

fun nullable :: "rexp \<Rightarrow> bool" where
  "nullable Zero = False"
| "nullable One = True"
| "nullable (Chr c) = False"
| "nullable Digit = False"
| "nullable (Alt r s) = (nullable r \<or> nullable s)"
| "nullable (Seq r s) = (nullable r \<and> nullable s)"
| "nullable (Star r) = True"

fun deriv :: "char \<Rightarrow> rexp \<Rightarrow> rexp" where
  "deriv a Zero = Zero"
| "deriv a One = Zero"
| "deriv a (Chr c) = (if a = c then One else Zero)"
| "deriv a Digit = (if is_digit a then One else Zero)"
| "deriv a (Alt r s) = Alt (deriv a r) (deriv a s)"
| "deriv a (Seq r s) =
     (if nullable r then Alt (Seq (deriv a r) s) (deriv a s) else Seq (deriv a r) s)"
| "deriv a (Star r) = Seq (deriv a r) (Star r)"

definition MatchString :: "rexp \<Rightarrow> string \<Rightarrow> bool" where
  "MatchString r s = nullable (foldl (\<lambda>q a. deriv a q) r s)"


section \<open>Data model\<close>

text \<open>
  A call of the client ends in one of three ways: it returns a value, it returns an error,
  or the Go runtime panics (an index or a slice bound out of range, a failed type
  assertion), which nothing in the program recovers from.  The texts of the error messages
  are not modelled, only where an error comes from.
\<close>

datatype error =
    SendFailed
  | ReadFailed
  | ServerError string
  | InvalidResponse
  | DialFailed
  | AtoiFailed
  | NotFound

datatype 'a res = Ok 'a | Err error | Panic

text \<open>The field \<open>Value\<close> of a variable has type \<open>any\<close>; the values the client stores in
  it are strings, \<open>int64\<close>, \<open>float64\<close> and booleans.\<close>

datatype val = VString string | VInt int64 | VFloat rat | VBool bool

record Variable =
  vName :: string
  vValue :: val
  vType :: string
  vDescription :: string
  vWriteable :: bool
  vMaximumLength :: int
  vOriginalType :: string

record Command =
  cName :: string
  cDescription :: string

text \<open>A device.  Its pointer to the client is not a field here: the operations take the
  client as an argument and return it.\<close>

record UPS =
  Server :: string
  ID :: string
  Name :: string
  Description :: string
  Manufacturer :: string
  Model :: string
  VendorID :: string
  ProductID :: string
  Clients :: "string list"
  Variables :: "Variable list"
  Commands :: "Command list"

text \<open>
  The connection of a client is absent (\<open>nil\<close>), closed, or open.  An open connection is
  given by the segments of bytes that the coming calls of \<open>Read\<close> on it return, in order:
  a call returns the next segment, and fails when none is left, as a read does at the end
  of the stream or at the deadline of five seconds.  (In Go a call returns no more bytes
  than the buffer of the reader has room for, 4096 at most.)

  \<open>dials\<close> and \<open>trace\<close> are not fields of the Go struct.  \<open>dials\<close> holds what the coming
  calls of \<open>ResolveTCPAddr\<close> and \<open>DialTCP\<close> will give: \<open>None\<close> for a failure, the segments
  of the new connection otherwise.  \<open>trace\<close> records the write attempts, the closes and
  the dial attempts, in order.
\<close>

datatype connection = NoConn | ClosedConn | OpenConn "string list"

datatype event = Send string | Close | Dial

record Client =
  Version :: string
  ProtocolVersion :: string
  conn :: connection
  list :: "string \<rightharpoonup> UPS"
  hostname :: string
  port :: string
  username :: string
  password :: string
  dials :: "string list option list"
  trace :: "event list"

section \<open>Wire codec\<close>

text \<open>
  \<open>bufio.Reader.ReadString('\n')\<close> on a reader whose buffer holds \<open>buf\<close>, the bytes read
  from the connection and not yet returned: when the buffer has a line feed, the bytes up
  to it, with it, are returned and the others stay in the buffer; otherwise the reader
  calls \<open>Read\<close> for the next segment.  \<open>None\<close> when no line feed comes.
\<close>

fun ReadString :: "string \<Rightarrow> string list \<Rightarrow> (string \<times> string \<times> string list) option" where
  "ReadString buf [] =
     (if LF \<in> set buf
      then Some (takeWhile (\<lambda>c. c \<noteq> LF) buf @ [LF], tl (dropWhile (\<lambda>c. c \<noteq> LF) buf), [])
      else None)"
| "ReadString buf (s # segs) =
     (if LF \<in> set buf
      then Some (takeWhile (\<lambda>c. c \<noteq> LF) buf @ [LF], tl (dropWhile (\<lambda>c. c \<noteq> LF) buf),
                 s # segs)
      else ReadString (buf @ s) segs)"

text \<open>
  The loop of \<open>readResponse\<close>.  The reader is a local of the call, created with an empty
  buffer: when the loop ends, what the buffer still holds (bytes that arrived in one
  segment with the last line read) goes with it, and the connection keeps the segments not
  yet read.
\<close>

function readLines :: "string \<Rightarrow> bool \<Rightarrow> string list \<Rightarrow> string \<Rightarrow> string list \<Rightarrow> string list res \<times> string list" where
  "readLines endLine multiLineResponse response buf segs =
     (case ReadString buf segs of
        None \<Rightarrow> (Err ReadFailed, [])
      | Some (line, buf', segs') \<Rightarrow>
          if length line > 0 then
            (let cleanLine = TrimSuffix line [LF];
                 lines = Split cleanLine LF;
                 response' = response @ lines
             in if line = endLine \<or> multiLineResponse = False then (Ok response', segs')
                else readLines endLine multiLineResponse response' buf' segs')
          else readLines endLine multiLineResponse response buf' segs')"
  by pat_completeness auto
termination
proof -
  have key: "ReadString b sg = Some (l, b', sg') \<Longrightarrow>
             length b' + length (concat sg') < length b + length (concat sg)" for b sg l b' sg'
  proof (induction sg arbitrary: b)
    case Nil
    then have "LF \<in> set b" and "b' = tl (dropWhile (\<lambda>c. c \<noteq> LF) b)" and "sg' = []"
      by (auto split: if_splits)
    moreover from \<open>LF \<in> set b\<close> have "dropWhile (\<lambda>c. c \<noteq> LF) b \<noteq> []" by simp
    moreover have "length (dropWhile (\<lambda>c. c \<noteq> LF) b) \<le> length b" by (rule length_dropWhile_le)
    ultimately show ?case by (cases "dropWhile (\<lambda>c. c \<noteq> LF) b") auto
  next
    case (Cons s sg)
    show ?case
    proof (cases "LF \<in> set b")
      case True
      with Cons.prems have "b' = tl (dropWhile (\<lambda>c. c \<noteq> LF) b)" and "sg' = s # sg" by auto
      moreover from True have "dropWhile (\<lambda>c. c \<noteq> LF) b \<noteq> []" by simp
      moreover have "length (dropWhile (\<lambda>c. c \<noteq> LF) b) \<le> length b" by (rule length_dropWhile_le)
      ultimately show ?thesis by (cases "dropWhile (\<lambda>c. c \<noteq> LF) b") auto
    next
      case False
      with Cons.prems have "ReadString (b @ s) sg = Some (l, b', sg')" by simp
      from Cons.IH [OF this] show ?thesis by simp
    qed
  qed
  show ?thesis
    by (relation "measure (\<lambda>(e, m, r, buf, segs). length buf + length (concat segs))")
       (auto dest: key)
qed

declare readLines.simps [simp del]

definition readResponse :: "string \<Rightarrow> bool \<Rightarrow> Client \<Rightarrow> string list res \<times> Client" where
  "readResponse endLine multiLineResponse c =
     (case conn c of
        OpenConn segs \<Rightarrow>
          (case readLines endLine multiLineResponse [] [] segs of
             (r, segs') \<Rightarrow> (r, c\<lparr>conn := OpenConn segs'\<rparr>))
      | _ \<Rightarrow> (Err ReadFailed, c))"

text \<open>\<open>sendCommand\<close>.  The write fails on a connection that is absent or closed.\<close>

definition sendCommand :: "string \<Rightarrow> Client \<Rightarrow> string list res \<times> Client" where
  "sendCommand cmd0 c0 =
     (let cmd = cmd0 @ [LF];
          endLine =
            (if HasPrefix cmd ''USERNAME '' \<or> HasPrefix cmd ''PASSWORD ''
                \<or> HasPrefix cmd ''SET '' \<or> HasPrefix cmd ''HELP ''
                \<or> HasPrefix cmd ''VER '' \<or> HasPrefix cmd ''NETVER ''
             then ''OK'' @ [LF] else ''END '' @ cmd);
          c = c0\<lparr>trace := trace c0 @ [Send cmd]\<rparr>
      in case conn c of
           OpenConn inp \<Rightarrow>
             (case readResponse endLine (HasPrefix cmd ''LIST '') c of
                (Err e, c') \<Rightarrow> (Err e, c')
              | (Panic, c') \<Rightarrow> (Panic, c')
              | (Ok resp, c') \<Rightarrow>
                  (case resp of
                     [] \<Rightarrow> (Panic, c')
                   | r0 # _ \<Rightarrow>
                       if HasPrefix r0 ''ERR '' then
                         (case Split r0 (CHR '' '') of
                            _ # token # _ \<Rightarrow> (Err (ServerError token), c')
                          | _ \<Rightarrow> (Panic, c'))
                       else (Ok resp, c')))
         | _ \<Rightarrow> (Err SendFailed, c))"


section \<open>Device: metadata and variables\<close>

text \<open>The slice \<open>resp[1 : len(resp)-1]\<close>; Go panics when \<open>resp\<close> has fewer than two
  elements (\<open>None\<close>).\<close>

definition interior :: "'a list \<Rightarrow> 'a list option" where
  "interior resp = (if length resp < 2 then None else Some (butlast (tl resp)))"

definition GetDescription :: "UPS \<Rightarrow> Client \<Rightarrow> string res \<times> UPS \<times> Client" where
  "GetDescription u c =
     (case sendCommand (''GET UPSDESC '' @ Name u) c of
        (Err e, c') \<Rightarrow> (Err e, u, c')
      | (Panic, c') \<Rightarrow> (Panic, u, c')
      | (Ok resp, c') \<Rightarrow>
          (case resp of
             [] \<Rightarrow> (Panic, u, c')
           | r0 # _ \<Rightarrow>
               (let description = TrimPrefix (RemoveAll r0 DQ) (''UPSDESC '' @ Name u @ '' '')
                in (Ok description, u\<lparr>Description := description\<rparr>, c'))))"

definition GetClients :: "UPS \<Rightarrow> Client \<Rightarrow> string list res \<times> UPS \<times> Client" where
  "GetClients u c =
     (case sendCommand (''LIST CLIENT '' @ Name u) c of
        (Err e, c') \<Rightarrow> (Err e, u, c')
      | (Panic, c') \<Rightarrow> (Panic, u, c')
      | (Ok resp, c') \<Rightarrow>
          (let linePrefix = ''CLIENT '' @ Name u @ '' '' in
           case interior resp of
             None \<Rightarrow> (Panic, u, c')
           | Some ls \<Rightarrow>
               (let clientsList = map (\<lambda>line. TrimPrefix line linePrefix) ls
                in (Ok clientsList, u\<lparr>Clients := clientsList\<rparr>, c'))))"

definition GetCommandDescription :: "string \<Rightarrow> string \<Rightarrow> Client \<Rightarrow> string res \<times> Client" where
  "GetCommandDescription name commandName c =
     (case sendCommand (''GET CMDDESC '' @ name @ '' '' @ commandName) c of
        (Err e, c') \<Rightarrow> (Err e, c')
      | (Panic, c') \<Rightarrow> (Panic, c')
      | (Ok resp, c') \<Rightarrow>
          (case resp of
             [] \<Rightarrow> (Panic, c')
           | r0 # _ \<Rightarrow>
               (let trimmedLine = TrimPrefix r0 (''CMDDESC '' @ name @ '' '' @ commandName @ '' '')
                in (Ok (RemoveAll trimmedLine DQ), c'))))"

text \<open>The loop of \<open>GetCommands\<close> over the interior lines.\<close>

fun commandsLoop :: "string \<Rightarrow> string list \<Rightarrow> Command list \<Rightarrow> Client \<Rightarrow> Command list res \<times> Client" where
  "commandsLoop name [] commandsList c = (Ok commandsList, c)"
| "commandsLoop name (line # ls) commandsList c =
     (let cmdName = TrimPrefix line (''CMD '' @ name @ '' '') in
      case GetCommandDescription name cmdName c of
        (Err e, c') \<Rightarrow> (Err e, c')
      | (Panic, c') \<Rightarrow> (Panic, c')
      | (Ok description, c') \<Rightarrow>
          commandsLoop name ls
            (commandsList @ [\<lparr>cName = cmdName, cDescription = description\<rparr>]) c')"

definition GetCommands :: "UPS \<Rightarrow> Client \<Rightarrow> Command list res \<times> UPS \<times> Client" where
  "GetCommands u c =
     (case sendCommand (''LIST CMD '' @ Name u) c of
        (Err e, c') \<Rightarrow> (Err e, u, c')
      | (Panic, c') \<Rightarrow> (Panic, u, c')
      | (Ok resp, c') \<Rightarrow>
          (case interior resp of
             None \<Rightarrow> (Panic, u, c')
           | Some ls \<Rightarrow>
               (case commandsLoop (Name u) ls [] c' of
                  (Ok commandsList, c'') \<Rightarrow> (Ok commandsList, u\<lparr>Commands := commandsList\<rparr>, c'')
                | (Err e, c'') \<Rightarrow> (Err e, u, c'')
                | (Panic, c'') \<Rightarrow> (Panic, u, c''))))"

definition GetVariableDescription :: "string \<Rightarrow> string \<Rightarrow> Client \<Rightarrow> string res \<times> Client" where
  "GetVariableDescription name variableName c =
     (case sendCommand (''GET DESC '' @ name @ '' '' @ variableName) c of
        (Err e, c') \<Rightarrow> (Err e, c')
      | (Panic, c') \<Rightarrow> (Panic, c')
      | (Ok resp, c') \<Rightarrow>
          (case resp of
             [] \<Rightarrow> (Panic, c')
           | r0 # _ \<Rightarrow>
               (let trimmedLine = TrimPrefix r0 (''DESC '' @ name @ '' '' @ variableName @ '' '')
                in (Ok (RemoveAll trimmedLine DQ), c'))))"

text \<open>\<open>GetVariableType\<close>: the declared type, the writeable flag and the maximum length.\<close>

definition GetVariableType :: "string \<Rightarrow> string \<Rightarrow> Client \<Rightarrow> (string \<times> bool \<times> int) res \<times> Client" where
  "GetVariableType name variableName c =
     (case sendCommand (''GET TYPE '' @ name @ '' '' @ variableName) c of
        (Err e, c') \<Rightarrow> (Err e, c')
      | (Panic, c') \<Rightarrow> (Panic, c')
      | (Ok resp, c') \<Rightarrow>
          (case resp of
             [] \<Rightarrow> (Panic, c')
           | r0 # _ \<Rightarrow>
               (let trimmedLine = TrimPrefix r0 (''TYPE '' @ name @ '' '' @ variableName @ '' '');
                    splitLine = Split trimmedLine (CHR '' '')
                in case splitLine of
                     [] \<Rightarrow> (Panic, c')
                   | s0 # others \<Rightarrow>
                       (let writeable = (s0 = ''RW'') in
                        if writeable then
                          (case others of
                             [] \<Rightarrow> (Panic, c')
                           | s1 # _ \<Rightarrow>
                               if HasPrefix s1 ''STRING:'' then
                                 (case Split s1 (CHR '':'') of
                                    t0 # t1 # _ \<Rightarrow>
                                      (case Atoi t1 of
                                         None \<Rightarrow> (Err AtoiFailed, c')
                                       | Some maximumLength \<Rightarrow>
                                           (Ok (t0, writeable, maximumLength), c'))
                                  | _ \<Rightarrow> (Panic, c'))
                               else (Ok (s1, writeable, 0), c'))
                        else (Ok (s0, writeable, 0), c')))))"

text \<open>The pattern \<open>^-?\d+(\.\d+)?$\<close> of \<open>GetVariables\<close>.\<close>

definition numeric_re :: rexp where
  "numeric_re =
     Seq (Opt (Chr (CHR ''-'')))
       (Seq (Plus Digit) (Opt (Seq (Chr (CHR ''.'')) (Plus Digit))))"

text \<open>The \<open>switch\<close> of \<open>GetVariables\<close>: from the declared type and the value as the
  server sent it, the fields \<open>Value\<close> and \<open>Type\<close> of the variable.\<close>

definition inferValue :: "string \<Rightarrow> string \<Rightarrow> val \<times> string" where
  "inferValue varType valueStr =
     (if valueStr = ''enabled'' then (VBool True, ''BOOLEAN'')
      else if valueStr = ''disabled'' then (VBool False, ''BOOLEAN'')
      else if MatchString numeric_re valueStr then
        (if Contains valueStr (CHR ''.'') then
           (case ParseFloat valueStr of
              Some f \<Rightarrow> (VFloat f, ''FLOAT_64'')
            | None \<Rightarrow> (VString valueStr, varType))
         else
           (case ParseInt valueStr of
              Some i \<Rightarrow> (VInt i, ''INTEGER'')
            | None \<Rightarrow> (VString valueStr, varType)))
      else (VString valueStr, ''STRING''))"

text \<open>The loop of \<open>GetVariables\<close> over the interior lines.\<close>

fun variablesLoop :: "string \<Rightarrow> string list \<Rightarrow> Variable list \<Rightarrow> Client \<Rightarrow> Variable list res \<times> Client" where
  "variablesLoop uname [] vars c = (Ok vars, c)"
| "variablesLoop uname (line # ls) vars c =
     (let cleanedLine = TrimPrefix line (''VAR '' @ uname @ '' '');
          splitLine = SplitN cleanedLine DQ 3
      in case splitLine of
           s0 # s1 # _ \<Rightarrow>
             (let name = TrimSpace (TrimSuffix s0 '' '');
                  valueStr = TrimSpace s1
              in case GetVariableDescription uname name c of
                   (Err e, c') \<Rightarrow> (Err e, c')
                 | (Panic, c') \<Rightarrow> (Panic, c')
                 | (Ok description, c') \<Rightarrow>
                     (case GetVariableType uname name c' of
                        (Err e, c'') \<Rightarrow> (Err e, c'')
                      | (Panic, c'') \<Rightarrow> (Panic, c'')
                      | (Ok (varType, writeable, maximumLength), c'') \<Rightarrow>
                          variablesLoop uname ls
                            (vars @ [\<lparr>vName = name,
                                      vValue = fst (inferValue varType valueStr),
                                      vType = snd (inferValue varType valueStr),
                                      vDescription = description,
                                      vWriteable = writeable,
                                      vMaximumLength = maximumLength,
                                      vOriginalType = varType\<rparr>]) c''))
         | _ \<Rightarrow> variablesLoop uname ls vars c)"

definition GetVariables :: "UPS \<Rightarrow> Client \<Rightarrow> Variable list res \<times> UPS \<times> Client" where
  "GetVariables u c =
     (case sendCommand (''LIST VAR '' @ Name u) c of
        (Err e, c') \<Rightarrow> (Err e, u, c')
      | (Panic, c') \<Rightarrow> (Panic, u, c')
      | (Ok resp, c') \<Rightarrow>
          (case interior resp of
             None \<Rightarrow> (Panic, u, c')
           | Some ls \<Rightarrow>
               (case variablesLoop (Name u) ls [] c' of
                  (Ok vars, c'') \<Rightarrow> (Ok vars, u\<lparr>Variables := vars\<rparr>, c'')
                | (Err e, c'') \<Rightarrow> (Err e, u, c'')
                | (Panic, c'') \<Rightarrow> (Panic, u, c''))))"


section \<open>Device: identifier and construction\<close>

text \<open>\<open>base64.URLEncoding.EncodeToString\<close>: the URL alphabet, with padding.\<close>

definition b64 :: "8 word \<Rightarrow> char" where
  "b64 i = ''ABCDEFGHIJKLMNOPQRSTUVWXYZabcdefghijklmnopqrstuvwxyz0123456789-_'' ! unat i"

fun EncodeToString :: "8 word list \<Rightarrow> string" where
  "EncodeToString [] = []"
| "EncodeToString [a] =
     [b64 (drop_bit 2 a), b64 (push_bit 4 (a AND 3)), CHR ''='', CHR ''='']"
| "EncodeToString [a, b] =
     [b64 (drop_bit 2 a), b64 (push_bit 4 (a AND 3) OR drop_bit 4 b),
      b64 (push_bit 2 (b AND 15)), CHR ''='']"
| "EncodeToString (a # b # c # r) =
     [b64 (drop_bit 2 a), b64 (push_bit 4 (a AND 3) OR drop_bit 4 b),
      b64 (push_bit 2 (b AND 15) OR drop_bit 6 c), b64 (c AND 63)] @ EncodeToString r"

text \<open>The sixteen bytes of a 128-bit digest, the most significant first.\<close>

definition digest_bytes :: "128 word \<Rightarrow> 8 word list" where
  "digest_bytes d = map (\<lambda>i. ucast (drop_bit (8 * (15 - i)) d)) [0 ..< 16]"

text \<open>
  \<open>GenerateID\<close>.  The MD5 function of the Go library is a parameter, \<open>md5\<close>, from the
  bytes hashed to the digest.  The slice \<open>[:6]\<close> is in range, the encoding of sixteen
  bytes having 24 characters.
\<close>

definition GenerateID :: "(string \<Rightarrow> 128 word) \<Rightarrow> UPS \<Rightarrow> string" where
  "GenerateID md5 u =
     (let input = Server u;
          input = (if Name u \<noteq> [] then input @ Name u else input);
          input = (if ProductID u \<noteq> [] then input @ ProductID u else input);
          input = (if VendorID u \<noteq> [] then input @ VendorID u else input);
          hash = digest_bytes (md5 input)
      in take 6 (EncodeToString hash))"

text \<open>The body of the loop of \<open>NewUPS\<close> over the variables; \<open>None\<close> is the panic of a
  type assertion \<open>.(string)\<close> on a value that is no string.\<close>

definition extractField :: "Variable \<Rightarrow> UPS \<Rightarrow> UPS option" where
  "extractField variable u =
     (case (if vName variable = ''ups.mfr''
            then (case vValue variable of
                    VString s \<Rightarrow> Some (u\<lparr>Manufacturer := s\<rparr>) | _ \<Rightarrow> None)
            else Some u) of
        None \<Rightarrow> None
      | Some u1 \<Rightarrow>
          (case (if vName variable = ''ups.model''
                 then (case vValue variable of
                         VString s \<Rightarrow> Some (u1\<lparr>Model := s\<rparr>) | _ \<Rightarrow> None)
                 else Some u1) of
             None \<Rightarrow> None
           | Some u2 \<Rightarrow>
               (let u3 = (if vName variable = ''ups.vendorid''
                          then (case vValue variable of
                                  VString s \<Rightarrow> u2\<lparr>VendorID := s\<rparr>
                                | VInt i \<Rightarrow> u2\<lparr>VendorID := FormatInt i\<rparr>
                                | _ \<Rightarrow> u2)
                          else u2);
                    u4 = (if vName variable = ''ups.productid''
                          then (case vValue variable of
                                  VString s \<Rightarrow> u3\<lparr>ProductID := s\<rparr>
                                | VInt i \<Rightarrow> u3\<lparr>ProductID := FormatInt i\<rparr>
                                | _ \<Rightarrow> u3)
                          else u3)
                in Some u4)))"

fun extractFields :: "Variable list \<Rightarrow> UPS \<Rightarrow> UPS option" where
  "extractFields [] u = Some u"
| "extractFields (variable # vs) u =
     (case extractField variable u of None \<Rightarrow> None | Some u' \<Rightarrow> extractFields vs u')"

text \<open>\<open>NewUPS\<close>, up to the start of the poller, which is modelled below.\<close>

definition NewUPS :: "(string \<Rightarrow> 128 word) \<Rightarrow> string \<Rightarrow> string \<Rightarrow> Client \<Rightarrow> UPS res \<times> Client" where
  "NewUPS md5 server name c =
     (let u = \<lparr>Server = server, ID = [], Name = name, Description = [], Manufacturer = [],
                Model = [], VendorID = [], ProductID = [], Clients = [], Variables = [],
                Commands = []\<rparr>
      in case GetDescription u c of
           (Err e, _, c1) \<Rightarrow> (Err e, c1)
         | (Panic, _, c1) \<Rightarrow> (Panic, c1)
         | (Ok _, u1, c1) \<Rightarrow>
             (case GetClients u1 c1 of
                (Err e, _, c2) \<Rightarrow> (Err e, c2)
              | (Panic, _, c2) \<Rightarrow> (Panic, c2)
              | (Ok _, u2, c2) \<Rightarrow>
                  (case GetCommands u2 c2 of
                     (Err e, _, c3) \<Rightarrow> (Err e, c3)
                   | (Panic, _, c3) \<Rightarrow> (Panic, c3)
                   | (Ok _, u3, c3) \<Rightarrow>
                       (case GetVariables u3 c3 of
                          (Err e, _, c4) \<Rightarrow> (Err e, c4)
                        | (Panic, _, c4) \<Rightarrow> (Panic, c4)
                        | (Ok _, u4, c4) \<Rightarrow>
                            (case extractFields (Variables u4) u4 of
                               None \<Rightarrow> (Panic, c4)
                             | Some u5 \<Rightarrow> (Ok (u5\<lparr>ID := GenerateID md5 u5\<rparr>), c4))))))"

section \<open>Device registry\<close>

text \<open>The loop of \<open>getListOfUPS\<close> over the lines of the reply to \<open>LIST UPS\<close>.\<close>

fun upsLoop :: "(string \<Rightarrow> 128 word) \<Rightarrow> string list \<Rightarrow> Client \<Rightarrow> unit res \<times> Client" where
  "upsLoop md5 [] c = (Ok (), c)"
| "upsLoop md5 (line # ls) c =
     (if HasPrefix line ''UPS '' then
        (case Split (TrimPrefix line ''UPS '') DQ of
           [] \<Rightarrow> (Panic, c)
         | s0 # _ \<Rightarrow>
             (let name = TrimSuffix s0 '' '' in
              case NewUPS md5 (hostname c @ '':'' @ port c) name c of
                (Err e, c') \<Rightarrow> upsLoop md5 ls c'
              | (Panic, c') \<Rightarrow> (Panic, c')
              | (Ok ups, c') \<Rightarrow>
                  upsLoop md5 ls
                    (if list c' (ID ups) = None
                     then c'\<lparr>list := (list c')(ID ups \<mapsto> ups)\<rparr> else c')))
      else upsLoop md5 ls c)"

definition getListOfUPS :: "(string \<Rightarrow> 128 word) \<Rightarrow> Client \<Rightarrow> unit res \<times> Client" where
  "getListOfUPS md5 c =
     (case sendCommand ''LIST UPS'' c of
        (Err e, c') \<Rightarrow> (Err e, c')
      | (Panic, c') \<Rightarrow> (Panic, c')
      | (Ok resp, c') \<Rightarrow> upsLoop md5 resp c')"

section \<open>Session\<close>

definition authenticate :: "string \<Rightarrow> string \<Rightarrow> Client \<Rightarrow> bool res \<times> Client" where
  "authenticate uname pass c =
     (case sendCommand (''USERNAME '' @ uname) c of
        (Err e, c1) \<Rightarrow> (Err e, c1)
      | (Panic, c1) \<Rightarrow> (Panic, c1)
      | (Ok resp, c1) \<Rightarrow>
          (case resp of
             [] \<Rightarrow> (Panic, c1)
           | r0 # _ \<Rightarrow>
               if r0 \<noteq> ''OK'' then (Err InvalidResponse, c1)
               else
                 (case sendCommand (''PASSWORD '' @ pass) c1 of
                    (Err e, c2) \<Rightarrow> (Err e, c2)
                  | (Panic, c2) \<Rightarrow> (Panic, c2)
                  | (Ok resp2, c2) \<Rightarrow>
                      (case resp2 of
                         [] \<Rightarrow> (Panic, c2)
                       | r0 # _ \<Rightarrow>
                           if r0 \<noteq> ''OK'' then (Err InvalidResponse, c2)
                           else (Ok True, c2)))))"

definition getVersion :: "Client \<Rightarrow> string res \<times> Client" where
  "getVersion c =
     (case sendCommand ''VER'' c of
        (Err e, c') \<Rightarrow> (Err e, c')
      | (Panic, c') \<Rightarrow> (Panic, c')
      | (Ok resp, c') \<Rightarrow>
          (case resp of
             [] \<Rightarrow> (Err InvalidResponse, c')
           | r0 # _ \<Rightarrow> (Ok r0, c'\<lparr>Version := r0\<rparr>)))"

definition getNetworkProtocolVersion :: "Client \<Rightarrow> string res \<times> Client" where
  "getNetworkProtocolVersion c =
     (case sendCommand ''NETVER'' c of
        (Err e, c') \<Rightarrow> (Err e, c')
      | (Panic, c') \<Rightarrow> (Panic, c')
      | (Ok resp, c') \<Rightarrow>
          (case resp of
             [] \<Rightarrow> (Err InvalidResponse, c')
           | r0 # _ \<Rightarrow> (Ok r0, c'\<lparr>ProtocolVersion := r0\<rparr>)))"

text \<open>\<open>Reconnect\<close>.  The resolution of the address and the dial are one step of the
  model, which takes the next outcome from \<open>dials\<close>.\<close>

definition Reconnect :: "Client \<Rightarrow> unit res \<times> Client" where
  "Reconnect c0 =
     (let c1 = (if conn c0 \<noteq> NoConn
                then c0\<lparr>conn := ClosedConn, trace := trace c0 @ [Close]\<rparr> else c0);
          c2 = c1\<lparr>trace := trace c1 @ [Dial]\<rparr>
      in case dials c2 of
           [] \<Rightarrow> (Err DialFailed, c2)
         | None # ds \<Rightarrow> (Err DialFailed, c2\<lparr>dials := ds\<rparr>)
         | Some inp # ds \<Rightarrow>
             (let c3 = c2\<lparr>dials := ds, conn := OpenConn inp\<rparr> in
              case authenticate (username c3) (password c3) c3 of
                (Err e, c4) \<Rightarrow> (Err e, c4)
              | (Panic, c4) \<Rightarrow> (Panic, c4)
              | (Ok status, c4) \<Rightarrow>
                  if \<not> status then (Err InvalidResponse, c4)
                  else
                    (case getVersion c4 of
                       (Err e, c5) \<Rightarrow> (Err e, c5)
                     | (Panic, c5) \<Rightarrow> (Panic, c5)
                     | (Ok _, c5) \<Rightarrow>
                         (case getNetworkProtocolVersion c5 of
                            (Err e, c6) \<Rightarrow> (Err e, c6)
                          | (Panic, c6) \<Rightarrow> (Panic, c6)
                          | (Ok _, c6) \<Rightarrow> (Ok (), c6)))))"

section \<open>Poller\<close>

text \<open>
  The goroutine that \<open>NewUPS\<close> starts waits for the ticker and for the cancellation of
  the context.  \<open>pollTick\<close> is the body of the case of the ticker; it ends normally
  (\<open>Ok\<close>) or in a panic.  \<open>poller\<close> runs the loop on the signals that arrive, in the order
  in which the \<open>select\<close> takes them: it ends \<open>Cancelled\<close> at the first \<open>Done\<close>, \<open>Crashed\<close>
  on a panic, and is \<open>Waiting\<close> for the next signal when all of them are handled.  The
  commands of other goroutines on the same connection are not modelled.
\<close>

definition pollTick :: "UPS \<Rightarrow> Client \<Rightarrow> unit res \<times> UPS \<times> Client" where
  "pollTick u c =
     (case GetVariables u c of
        (Ok _, u1, c1) \<Rightarrow> (Ok (), u1, c1)
      | (Panic, u1, c1) \<Rightarrow> (Panic, u1, c1)
      | (Err e, u1, c1) \<Rightarrow>
          (case Reconnect c1 of
             (Ok _, c2) \<Rightarrow>
               (case GetVariables u1 c2 of
                  (Ok _, u3, c3) \<Rightarrow> (Ok (), u3, c3)
                | (Err e', u3, c3) \<Rightarrow> (Ok (), u3, c3)
                | (Panic, u3, c3) \<Rightarrow> (Panic, u3, c3))
           | (Err e', c2) \<Rightarrow> (Ok (), u1, c2)
           | (Panic, c2) \<Rightarrow> (Panic, u1, c2)))"

datatype signal = Tick | Done

datatype loop_state = Waiting | Cancelled | Crashed

fun poller :: "signal list \<Rightarrow> UPS \<Rightarrow> Client \<Rightarrow> loop_state \<times> UPS \<times> Client" where
  "poller [] u c = (Waiting, u, c)"
| "poller (Done # sigs) u c = (Cancelled, u, c)"
| "poller (Tick # sigs) u c =
     (case pollTick u c of
        (Panic, u', c') \<Rightarrow> (Crashed, u', c')
      | (_, u', c') \<Rightarrow> poller sigs u' c')"

section \<open>Derived readings\<close>

fun getVariable :: "Variable list \<Rightarrow> string \<Rightarrow> val option" where
  "getVariable [] name = None"
| "getVariable (variable # vs) name =
     (if vName variable = name then Some (vValue variable) else getVariable vs name)"

definition NUTStatusHumanReadable :: "string \<rightharpoonup> string" where
  "NUTStatusHumanReadable = map_of
     [(''OL'', ''Online''),
      (''OB'', ''On Battery''),
      (''LB'', ''Low Battery''),
      (''RB'', ''Replace Battery''),
      (''CHRG'', ''Charging''),
      (''DISCHRG'', ''Discharging''),
      (''BYPASS'', ''Bypass Active''),
      (''CAL'', ''Calibrating''),
      (''OFF'', ''Offline''),
      (''OVER'', ''Overload''),
      (''TRIM'', ''SmartTrim''),
      (''BOOST'', ''SmartBoost''),
      (''FSD'', ''Forced Shutdown''),
      (''ALARM'', ''Alarm''),
      (''TEST'', ''Self Test''),
      (''COMM'', ''Communication Lost'')]"

text \<open>The loop of \<open>GetStatus\<close> over the codes.\<close>

fun statusLoop :: "string list \<Rightarrow> string list \<Rightarrow> string list" where
  "statusLoop [] descriptions = descriptions"
| "statusLoop (code # codes) descriptions =
     (case NUTStatusHumanReadable code of
        Some desc \<Rightarrow>
          statusLoop codes
            (descriptions @ [if length descriptions > 0 then ToLower desc else desc])
      | None \<Rightarrow> statusLoop codes (descriptions @ [''Unknown'']))"

definition GetStatus :: "UPS \<Rightarrow> string \<times> string" where
  "GetStatus u =
     (let statusCode = (case getVariable (Variables u) ''ups.status'' of
                          Some (VString v) \<Rightarrow> v | _ \<Rightarrow> []);
          descriptions = statusLoop (Fields statusCode) []
      in (Join descriptions '', '', statusCode))"

definition GetLoad :: "UPS \<Rightarrow> int64 \<times> int64" where
  "GetLoad u =
     (let load = (case getVariable (Variables u) ''ups.load'' of
                    Some (VInt v) \<Rightarrow> v | _ \<Rightarrow> 0);
          power =
            (case getVariable (Variables u) ''ups.realpower'' of
               Some (VInt v) \<Rightarrow> v
             | _ \<Rightarrow>
                 (let power =
                        (case getVariable (Variables u) ''ups.realpower.nominal'' of
                           Some (VInt v) \<Rightarrow> v
                         | _ \<Rightarrow>
                             (case getVariable (Variables u) ''ups.power.nominal'' of
                                Some (VInt v) \<Rightarrow> v
                              | _ \<Rightarrow> 0))
                  in div64 (load * power) 100))
      in (load, power))"


section \<open>Readings named by the specification\<close>

text \<open>The value of a variable when the snapshot holds it with integer type.\<close>

definition intValue :: "UPS \<Rightarrow> string \<Rightarrow> int64 option" where
  "intValue u name =
     (case getVariable (Variables u) name of Some (VInt v) \<Rightarrow> Some v | _ \<Rightarrow> None)"

text \<open>The load: the integer value of \<open>ups.load\<close>, else 0.\<close>

definition loadValue :: "UPS \<Rightarrow> int64" where
  "loadValue u = (case intValue u ''ups.load'' of Some l \<Rightarrow> l | None \<Rightarrow> 0)"


section \<open>Example inputs\<close>


text \<open>A device that holds a snapshot, a client on a given connection, and a reply to
  \<open>LIST VAR a\<close> after which the answer to \<open>GET TYPE\<close> never comes.\<close>

definition exampleDevice :: UPS where
  "exampleDevice =
     \<lparr>Server = ''h:3493'', ID = [], Name = ''a'', Description = [], Manufacturer = [],
       Model = [], VendorID = [], ProductID = [], Clients = [],
       Variables =
         [\<lparr>vName = ''ups.load'', vValue = VInt 40, vType = ''INTEGER'', vDescription = ''Load'',
            vWriteable = False, vMaximumLength = 0, vOriginalType = ''NUMBER''\<rparr>],
       Commands = []\<rparr>"

definition clientOn :: "connection \<Rightarrow> string list option list \<Rightarrow> Client" where
  "clientOn k ds =
     \<lparr>Version = [], ProtocolVersion = [], conn = k, list = Map.empty, hostname = ''h'',
       port = ''3493'', username = ''u'', password = ''p'', dials = ds, trace = []\<rparr>"

definition replyTypeMissing :: "string list" where
  "replyTypeMissing =
     [''BEGIN LIST VAR a'' @ [LF] @ ''VAR a ups.load '' @ [DQ] @ ''50'' @ [DQ] @ [LF]
        @ ''END LIST VAR a'' @ [LF],
      ''DESC a ups.load '' @ [DQ] @ ''Load'' @ [DQ] @ [LF]]"

text \<open>The words that begin the commands \<open>USERNAME\<close>, \<open>PASSWORD\<close>, \<open>SET\<close>, \<open>HELP\<close>,
  \<open>VER\<close> and \<open>NETVER\<close>.\<close>

definition commandWords :: "string list" where
  "commandWords = [''USERNAME'', ''PASSWORD'', ''SET'', ''HELP'', ''VER'', ''NETVER'']"

text \<open>A response whose first line is not \<open>OK\<close> and whose second line is, arriving in one
  segment and in two; and a reply to \<open>LIST UPS\<close> with one device.\<close>

definition replyHello :: "string list" where
  "replyHello = [''HELLO'' @ [LF] @ ''OK'' @ [LF]]"

definition replyHelloApart :: "string list" where
  "replyHelloApart = [''HELLO'' @ [LF], ''OK'' @ [LF]]"

definition replyListUPS :: "string list" where
  "replyListUPS =
     [''BEGIN LIST UPS'' @ [LF], ''UPS a '' @ [DQ] @ ''first'' @ [DQ] @ [LF]
        @ ''END LIST UPS'' @ [LF]]"

text \<open>The raw status: the string value of \<open>ups.status\<close>, else the empty string.\<close>

definition rawStatus :: "UPS \<Rightarrow> string" where
  "rawStatus u =
     (case getVariable (Variables u) ''ups.status'' of Some (VString v) \<Rightarrow> v | _ \<Rightarrow> [])"

text \<open>The human string as claim C5 states it: every code mapped through the table, an
  unknown code to \<open>Unknown\<close>, then the first result as it is and every later one
  lower-cased.\<close>

definition humanAsStated :: "string \<Rightarrow> string" where
  "humanAsStated raw =
     Join (case map (\<lambda>code. case NUTStatusHumanReadable code of
                               Some d \<Rightarrow> d | None \<Rightarrow> ''Unknown'') (Fields raw) of
             [] \<Rightarrow> []
           | d # ds \<Rightarrow> d # map ToLower ds) '', ''"

text \<open>The descriptions as the loop of \<open>GetStatus\<close> builds them, by position in the list.\<close>

fun describe :: "bool \<Rightarrow> string list \<Rightarrow> string list" where
  "describe first [] = []"
| "describe first (code # codes) =
     (case NUTStatusHumanReadable code of
        Some d \<Rightarrow> (if first then d else ToLower d)
      | None \<Rightarrow> ''Unknown'') # describe False codes"


text \<open>A device of a given server and name, and one with a given raw status.\<close>

definition deviceAt :: "string \<Rightarrow> string \<Rightarrow> UPS" where
  "deviceAt server name =
     \<lparr>Server = server, ID = [], Name = name, Description = [], Manufacturer = [],
       Model = [], VendorID = [], ProductID = [], Clients = [], Variables = [],
       Commands = []\<rparr>"

definition deviceWithStatus :: "string \<Rightarrow> UPS" where
  "deviceWithStatus raw =
     (deviceAt ''h:3493'' ''a'')
       \<lparr>Variables :=
          [\<lparr>vName = ''ups.status'', vValue = VString raw, vType = ''STRING'',
             vDescription = [], vWriteable = False, vMaximumLength = 0,
             vOriginalType = ''STRING''\<rparr>]\<rparr>"



text \<open>Two states of a client with the same registry, address, credentials and coming
  dials.\<close>

definition sameSession :: "Client \<Rightarrow> Client \<Rightarrow> bool" where
  "sameSession c c' =
     (list c' = list c \<and> hostname c' = hostname c \<and> port c' = port c
        \<and> username c' = username c \<and> password c' = password c \<and> dials c' = dials c)"


section \<open>Load and power\<close>

lemma div64_exact:
  assumes "- (2 ^ 63) \<le> sint a * sint b" and "sint a * sint b < 2 ^ 63"
  shows "sint (div64 (a * b) 100) = (sint a * sint b) sdiv 100"
proof -
  have m: "sint (a * b) = sint a * sint b"
    using assms by (simp add: sint_word_ariths signed_take_bit_int_eq_self)
  define x where "x = sint a * sint b"
  have ax: "\<bar>x\<bar> \<le> 2 ^ 63" using assms unfolding x_def by linarith
  have "\<bar>x sdiv 100\<bar> = \<bar>x\<bar> div 100"
    by (cases "x = 0") (simp_all add: signed_divide_int_def abs_mult)
  also have "\<dots> \<le> 2 ^ 63 div 100" using ax by (intro zdiv_mono1) simp_all
  also have "\<dots> < 2 ^ 62" by simp
  finally have "- (2 ^ 63) \<le> x sdiv 100" and "x sdiv 100 < 2 ^ 63"
    by (simp_all add: abs_less_iff)
  then have "sint (word_of_int (x sdiv 100) :: 64 word) = x sdiv 100"
    by (simp add: sint_sbintrunc' signed_take_bit_int_eq_self)
  then show ?thesis by (simp add: div64_def m x_def)
qed



lemma GetLoad_fst: "fst (GetLoad u) = loadValue u"
  by (simp add: GetLoad_def intValue_def loadValue_def Let_def split: option.splits val.splits)





section \<open>Variable fetch\<close>

lemma GetVariables_Err: "GetVariables u c = (Err e, u', c') \<Longrightarrow> u' = u"
  unfolding GetVariables_def
  by (auto split: prod.splits res.splits option.splits)

lemma GetVariables_Panic: "GetVariables u c = (Panic, u', c') \<Longrightarrow> u' = u"
  unfolding GetVariables_def
  by (auto split: prod.splits res.splits option.splits)

lemma GetVariables_Ok: "GetVariables u c = (Ok vars, u', c') \<Longrightarrow> u' = u\<lparr>Variables := vars\<rparr>"
  unfolding GetVariables_def
  by (auto split: prod.splits res.splits option.splits)

text \<open>
  Claim C10.  When \<open>GetVariables\<close> returns an error, whether \<open>LIST VAR\<close> failed or a
  \<open>GET DESC\<close> or \<open>GET TYPE\<close> of one variable did, the device is as it was, its snapshot
  included.  When it returns the variables, the snapshot is these variables, and nothing
  else of the device changes.  So a snapshot that differs afterwards comes from a fetch
  that succeeded.
\<close>

theorem GetVariables_error_keeps_snapshot:
  "(\<forall>e. fst (GetVariables u c) = Err e \<longrightarrow> fst (snd (GetVariables u c)) = u) \<and>
   (\<forall>vars. fst (GetVariables u c) = Ok vars \<longrightarrow>
      fst (snd (GetVariables u c)) = u\<lparr>Variables := vars\<rparr>) \<and>
   (Variables (fst (snd (GetVariables u c))) \<noteq> Variables u \<longrightarrow>
      (\<exists>vars. fst (GetVariables u c) = Ok vars))"
proof -
  obtain r u' c' where g: "GetVariables u c = (r, u', c')" by (cases "GetVariables u c") auto
  show ?thesis
  proof (cases r)
    case (Ok vars)
    with g GetVariables_Ok [of u c vars u' c'] show ?thesis by simp
  next
    case (Err e)
    with g GetVariables_Err [of u c e u' c'] show ?thesis by simp
  next
    case Panic
    with g GetVariables_Panic [of u c u' c'] show ?thesis by simp
  qed
qed

theorem GetVariables_error_keeps_snapshot_witness:
  "fst (GetVariables exampleDevice (clientOn (OpenConn replyTypeMissing) [])) = Err ReadFailed \<and>
   Variables (fst (snd (GetVariables exampleDevice (clientOn (OpenConn replyTypeMissing) []))))
     = Variables exampleDevice"
proof -
  have h: "fst (GetVariables exampleDevice (clientOn (OpenConn replyTypeMissing) [])) = Err ReadFailed"
    by code_simp
  with GetVariables_error_keeps_snapshot [of exampleDevice "clientOn (OpenConn replyTypeMissing) []"]
  show ?thesis by simp
qed

section \<open>Wire codec: what a reply decodes to\<close>

lemma HasPrefix_Nil [simp]: "HasPrefix s [] = True"
  by (simp add: HasPrefix_def)

lemma HasPrefix_Nil_Cons [simp]: "HasPrefix [] (b # p) = False"
  by (simp add: HasPrefix_def)

lemma HasPrefix_Cons [simp]: "HasPrefix (a # s) (b # p) = (a = b \<and> HasPrefix s p)"
  by (auto simp: HasPrefix_def)

lemma HasPrefix_append_self: "HasPrefix (p @ s) p"
  by (simp add: HasPrefix_def)

lemma HasPrefix_decompose: "HasPrefix s p \<Longrightarrow> \<exists>x. s = p @ x"
  by (metis HasPrefix_def append_take_drop_id)

lemma TrimSuffix_LF: "TrimSuffix (l @ [LF]) [LF] = l"
  by (simp add: TrimSuffix_def HasSuffix_def)

lemma Split_nonempty: "Split s sep \<noteq> []"
  by (induction s) (auto split: list.splits)

lemma Split_no_sep: "sep \<notin> set s \<Longrightarrow> Split s sep = [s]"
  by (induction s) auto

lemma cut_first_line:
  assumes "LF \<in> set buf" and "buf @ x = l @ LF # rest" and "LF \<notin> set l"
  shows "takeWhile (\<lambda>c. c \<noteq> LF) buf = l \<and> tl (dropWhile (\<lambda>c. c \<noteq> LF) buf) @ x = rest"
proof -
  have t: "takeWhile (\<lambda>c. c \<noteq> LF) (l @ LF # rest) = l"
    and d: "dropWhile (\<lambda>c. c \<noteq> LF) (l @ LF # rest) = LF # rest"
    using assms(3) by (induction l) auto
  have "takeWhile (\<lambda>c. c \<noteq> LF) (buf @ x) = takeWhile (\<lambda>c. c \<noteq> LF) buf"
    using assms(1) by (intro takeWhile_append1 [of LF]) auto
  with t assms(2) have 1: "takeWhile (\<lambda>c. c \<noteq> LF) buf = l" by simp
  have "dropWhile (\<lambda>c. c \<noteq> LF) (buf @ x) = dropWhile (\<lambda>c. c \<noteq> LF) buf @ x"
    using assms(1) by (intro dropWhile_append1 [of LF]) auto
  with d assms(2) have "dropWhile (\<lambda>c. c \<noteq> LF) buf @ x = LF # rest" by simp
  moreover from assms(1) have "dropWhile (\<lambda>c. c \<noteq> LF) buf \<noteq> []" by simp
  ultimately have "tl (dropWhile (\<lambda>c. c \<noteq> LF) buf) @ x = rest"
    by (cases "dropWhile (\<lambda>c. c \<noteq> LF) buf") auto
  with 1 show ?thesis by simp
qed

lemma ReadString_line:
  assumes "buf @ concat segs = l @ LF # rest" and "LF \<notin> set l"
  shows "\<exists>buf' segs'. ReadString buf segs = Some (l @ [LF], buf', segs')
           \<and> buf' @ concat segs' = rest"
  using assms
proof (induction segs arbitrary: buf)
  case Nil
  then have "LF \<in> set buf" by simp
  with Nil cut_first_line [of buf "[]" l rest] show ?case by simp
next
  case (Cons s segs)
  show ?case
  proof (cases "LF \<in> set buf")
    case True
    with Cons.prems cut_first_line [of buf "concat (s # segs)" l rest] show ?thesis by simp
  next
    case False
    from Cons.prems have "(buf @ s) @ concat segs = l @ LF # rest" by simp
    from Cons.IH [OF this Cons.prems(2)] False show ?thesis by simp
  qed
qed

lemma readLines_single:
  assumes "buf @ concat segs = l @ LF # rest" and "LF \<notin> set l"
  shows "\<exists>segs'. readLines e False resp buf segs = (Ok (resp @ [l]), segs')
           \<and> (\<exists>lost. rest = lost @ concat segs')"
proof -
  from ReadString_line [OF assms] obtain buf' segs'
    where "ReadString buf segs = Some (l @ [LF], buf', segs')" and "buf' @ concat segs' = rest"
    by blast
  then show ?thesis using assms(2)
    by (subst readLines.simps) (auto simp: TrimSuffix_LF Split_no_sep)
qed

lemma readLines_end:
  assumes "buf @ concat segs = l @ LF # rest" and "LF \<notin> set l"
  shows "\<exists>segs'. readLines (l @ [LF]) m resp buf segs = (Ok (resp @ [l]), segs')
           \<and> (\<exists>lost. rest = lost @ concat segs')"
proof -
  from ReadString_line [OF assms] obtain buf' segs'
    where "ReadString buf segs = Some (l @ [LF], buf', segs')" and "buf' @ concat segs' = rest"
    by blast
  then show ?thesis using assms(2)
    by (subst readLines.simps) (auto simp: TrimSuffix_LF Split_no_sep)
qed

lemma readLines_more:
  assumes "buf @ concat segs = l @ LF # rest" and "LF \<notin> set l" and "l @ [LF] \<noteq> e"
  shows "\<exists>buf' segs'. readLines e True resp buf segs = readLines e True (resp @ [l]) buf' segs'
           \<and> buf' @ concat segs' = rest"
proof -
  from ReadString_line [OF assms(1,2)] obtain buf' segs'
    where "ReadString buf segs = Some (l @ [LF], buf', segs')" and "buf' @ concat segs' = rest"
    by blast
  then show ?thesis using assms(2,3)
    by (subst readLines.simps) (auto simp: TrimSuffix_LF Split_no_sep)
qed

lemma readLines_data:
  assumes "\<forall>l \<in> set ls. LF \<notin> set l \<and> l @ [LF] \<noteq> e"
    and "buf @ concat segs = concat (map (\<lambda>l. l @ [LF]) ls) @ rest"
  shows "\<exists>buf' segs'. readLines e True resp buf segs = readLines e True (resp @ ls) buf' segs'
           \<and> buf' @ concat segs' = rest"
  using assms
proof (induction ls arbitrary: resp buf segs)
  case Nil
  then show ?case by auto
next
  case (Cons l ls)
  from Cons.prems have b: "buf @ concat segs = l @ LF # (concat (map (\<lambda>l. l @ [LF]) ls) @ rest)"
    and l: "LF \<notin> set l" "l @ [LF] \<noteq> e" by auto
  from readLines_more [OF b l] obtain buf1 segs1
    where 1: "readLines e True resp buf segs = readLines e True (resp @ [l]) buf1 segs1"
      and 2: "buf1 @ concat segs1 = concat (map (\<lambda>l. l @ [LF]) ls) @ rest" by blast
  from Cons.prems have "\<forall>l \<in> set ls. LF \<notin> set l \<and> l @ [LF] \<noteq> e" by simp
  from Cons.IH [OF this 2, of "resp @ [l]"] obtain buf' segs'
    where "readLines e True (resp @ [l]) buf1 segs1 = readLines e True ((resp @ [l]) @ ls) buf' segs'"
      and "buf' @ concat segs' = rest" by blast
  with 1 show ?case by auto
qed

lemma commandWord_not_LIST:
  assumes "k \<in> set commandWords" and "HasPrefix cmd k"
  shows "\<not> HasPrefix (cmd @ [LF]) ''LIST ''"
proof -
  from assms(2) obtain x where "cmd = k @ x" by (auto dest: HasPrefix_decompose)
  with assms(1) show ?thesis by (auto simp: commandWords_def)
qed

lemma Split_ERR: "HasPrefix l ''ERR '' \<Longrightarrow> \<exists>t ts. Split l (CHR '' '') = ''ERR'' # t # ts"
proof -
  assume "HasPrefix l ''ERR ''"
  then obtain x where l: "l = ''ERR '' @ x" by (auto dest: HasPrefix_decompose)
  obtain t ts where "Split x (CHR '' '') = t # ts"
    using Split_nonempty [of x "CHR '' ''"] by (cases "Split x (CHR '' '')") auto
  with l show ?thesis by simp
qed

lemma readLines_single_any:
  assumes "buf @ concat segs = l @ LF # rest" and "LF \<notin> set l"
  shows "\<exists>segs'. (\<forall>e resp. readLines e False resp buf segs = (Ok (resp @ [l]), segs'))
           \<and> (\<exists>lost. rest = lost @ concat segs')"
proof -
  from ReadString_line [OF assms] obtain buf' segs'
    where r: "ReadString buf segs = Some (l @ [LF], buf', segs')" and "buf' @ concat segs' = rest"
    by blast
  have "readLines e False resp buf segs = (Ok (resp @ [l]), segs')" for e resp
    using r assms(2) by (subst readLines.simps) (simp add: TrimSuffix_LF Split_no_sep)
  with \<open>buf' @ concat segs' = rest\<close> show ?thesis by blast
qed

lemma sendCommand_single:
  assumes nl: "\<not> HasPrefix (cmd @ [LF]) ''LIST ''"
    and c: "conn c = OpenConn segs" and b: "concat segs = l @ LF # rest"
    and l: "LF \<notin> set l"
  shows "\<exists>segs'. (\<exists>lost. rest = lost @ concat segs') \<and>
           (\<not> HasPrefix l ''ERR '' \<longrightarrow>
              sendCommand cmd c =
                (Ok [l], c\<lparr>trace := trace c @ [Send (cmd @ [LF])], conn := OpenConn segs'\<rparr>)) \<and>
           (HasPrefix l ''ERR '' \<longrightarrow>
              (\<exists>t. sendCommand cmd c =
                (Err (ServerError t),
                 c\<lparr>trace := trace c @ [Send (cmd @ [LF])], conn := OpenConn segs'\<rparr>)))"
proof -
  from b have "[] @ concat segs = l @ LF # rest" by simp
  from readLines_single_any [OF this l] obtain segs'
    where r: "\<And>e. readLines e False [] [] segs = (Ok [l], segs')"
      and lost: "\<exists>lost. rest = lost @ concat segs'"
    by auto
  have 1: "\<not> HasPrefix l ''ERR '' \<longrightarrow>
      sendCommand cmd c =
        (Ok [l], c\<lparr>trace := trace c @ [Send (cmd @ [LF])], conn := OpenConn segs'\<rparr>)"
    using nl c r by (simp add: sendCommand_def readResponse_def Let_def)
  have 2: "HasPrefix l ''ERR '' \<longrightarrow>
      (\<exists>t. sendCommand cmd c =
        (Err (ServerError t),
         c\<lparr>trace := trace c @ [Send (cmd @ [LF])], conn := OpenConn segs'\<rparr>))"
  proof
    assume e: "HasPrefix l ''ERR ''"
    then obtain t ts where "Split l (CHR '' '') = ''ERR'' # t # ts" by (auto dest: Split_ERR)
    then have "sendCommand cmd c =
        (Err (ServerError t),
         c\<lparr>trace := trace c @ [Send (cmd @ [LF])], conn := OpenConn segs'\<rparr>)"
      using nl c r e by (simp add: sendCommand_def readResponse_def Let_def)
    then show "\<exists>t. sendCommand cmd c =
        (Err (ServerError t),
         c\<lparr>trace := trace c @ [Send (cmd @ [LF])], conn := OpenConn segs'\<rparr>)"
      by blast
  qed
  from lost 1 2 show ?thesis by blast
qed

text \<open>
  Claim C4, as amended.  For a command that begins with one of the words \<open>USERNAME\<close>,
  \<open>PASSWORD\<close>, \<open>SET\<close>, \<open>HELP\<close>, \<open>VER\<close> and \<open>NETVER\<close>, the read returns the first line of
  the response and stops, whether or not that line is \<open>OK\<close>: the line is the result (or,
  when it begins with \<open>ERR \<close>, its second field is the error), and the read does not go on
  to an \<open>OK\<close> that follows.  Of the bytes after the first line, those that arrived in one
  segment with it are lost with the reader of the call, and the segments not yet read stay
  on the connection.
\<close>

theorem single_line_command_reads_one_line:
  assumes "k \<in> set commandWords" and "HasPrefix cmd k"
    and "conn c = OpenConn segs" and "concat segs = l @ LF # rest" and "LF \<notin> set l"
  shows "\<exists>segs'. (\<exists>lost. rest = lost @ concat segs') \<and>
           (\<not> HasPrefix l ''ERR '' \<longrightarrow>
              sendCommand cmd c =
                (Ok [l], c\<lparr>trace := trace c @ [Send (cmd @ [LF])], conn := OpenConn segs'\<rparr>)) \<and>
           (HasPrefix l ''ERR '' \<longrightarrow>
              (\<exists>t. sendCommand cmd c =
                (Err (ServerError t),
                 c\<lparr>trace := trace c @ [Send (cmd @ [LF])], conn := OpenConn segs'\<rparr>)))"
  using assms by (intro sendCommand_single commandWord_not_LIST)

theorem single_line_command_reads_one_line_witness:
  "''USERNAME'' \<in> set commandWords \<and> HasPrefix ''USERNAME bob'' ''USERNAME'' \<and>
   conn (clientOn (OpenConn replyHelloApart) []) = OpenConn replyHelloApart \<and>
   concat replyHelloApart = ''HELLO'' @ LF # ''OK'' @ [LF] \<and>
   LF \<notin> set ''HELLO'' \<and> \<not> HasPrefix ''HELLO'' ''ERR '' \<and>
   fst (sendCommand ''USERNAME bob'' (clientOn (OpenConn replyHelloApart) [])) = Ok [''HELLO'']"
proof -
  have h: "''USERNAME'' \<in> set commandWords" "HasPrefix ''USERNAME bob'' ''USERNAME''"
    "conn (clientOn (OpenConn replyHelloApart) []) = OpenConn replyHelloApart"
    "concat replyHelloApart = ''HELLO'' @ LF # ''OK'' @ [LF]"
    "LF \<notin> set ''HELLO''" "\<not> HasPrefix ''HELLO'' ''ERR ''"
    by (simp_all add: commandWords_def clientOn_def replyHelloApart_def LF_def)
  from single_line_command_reads_one_line [OF h(1-5)] h(6)
  have "fst (sendCommand ''USERNAME bob'' (clientOn (OpenConn replyHelloApart) [])) = Ok [''HELLO'']"
    by auto
  with h show ?thesis by blast
qed

text \<open>Claim C4 as stated fails: after \<open>USERNAME bob\<close>, on the response \<open>HELLO\<close>, \<open>OK\<close>,
  the read returns \<open>HELLO\<close> alone, whether the two lines arrive together or apart.\<close>

theorem single_line_command_counterexample:
  "fst (sendCommand ''USERNAME bob'' (clientOn (OpenConn replyHello) [])) = Ok [''HELLO''] \<and>
   fst (sendCommand ''USERNAME bob'' (clientOn (OpenConn replyHelloApart) [])) = Ok [''HELLO'']"
  by code_simp

lemma LIST_endLine:
  assumes "HasPrefix cmd ''LIST ''"
  shows "\<not> (HasPrefix (cmd @ [LF]) ''USERNAME '' \<or> HasPrefix (cmd @ [LF]) ''PASSWORD ''
            \<or> HasPrefix (cmd @ [LF]) ''SET '' \<or> HasPrefix (cmd @ [LF]) ''HELP ''
            \<or> HasPrefix (cmd @ [LF]) ''VER '' \<or> HasPrefix (cmd @ [LF]) ''NETVER '')"
    and "HasPrefix (cmd @ [LF]) ''LIST ''"
proof -
  from assms obtain x where "cmd = ''LIST '' @ x" by (auto dest: HasPrefix_decompose)
  then show "\<not> (HasPrefix (cmd @ [LF]) ''USERNAME '' \<or> HasPrefix (cmd @ [LF]) ''PASSWORD ''
            \<or> HasPrefix (cmd @ [LF]) ''SET '' \<or> HasPrefix (cmd @ [LF]) ''HELP ''
            \<or> HasPrefix (cmd @ [LF]) ''VER '' \<or> HasPrefix (cmd @ [LF]) ''NETVER '')"
    and "HasPrefix (cmd @ [LF]) ''LIST ''"
    by simp_all
qed

lemma readLines_list_reply:
  assumes "LF \<notin> set b" and "b \<noteq> e" and "LF \<notin> set e"
    and "\<forall>l \<in> set ls. LF \<notin> set l \<and> l \<noteq> e"
    and "concat segs = b @ [LF] @ concat (map (\<lambda>l. l @ [LF]) ls) @ e @ [LF] @ rest"
  shows "\<exists>segs'. readLines (e @ [LF]) True [] [] segs = (Ok (b # ls @ [e]), segs')
           \<and> (\<exists>lost. rest = lost @ concat segs')"
proof -
  from assms(5) have 0: "[] @ concat segs
      = b @ LF # (concat (map (\<lambda>l. l @ [LF]) ls) @ (e @ LF # rest))" by simp
  from assms(2) have "b @ [LF] \<noteq> e @ [LF]" by simp
  from readLines_more [OF 0 assms(1) this] obtain buf1 segs1
    where 1: "readLines (e @ [LF]) True [] [] segs = readLines (e @ [LF]) True ([] @ [b]) buf1 segs1"
      and 2: "buf1 @ concat segs1 = concat (map (\<lambda>l. l @ [LF]) ls) @ (e @ LF # rest)" by blast
  from assms(4) have "\<forall>l \<in> set ls. LF \<notin> set l \<and> l @ [LF] \<noteq> e @ [LF]" by simp
  from readLines_data [OF this 2, of "[] @ [b]"] obtain buf2 segs2
    where 3: "readLines (e @ [LF]) True ([] @ [b]) buf1 segs1
                = readLines (e @ [LF]) True (([] @ [b]) @ ls) buf2 segs2"
      and 4: "buf2 @ concat segs2 = e @ LF # rest" by blast
  from readLines_end [OF 4 assms(3), of True "([] @ [b]) @ ls"] obtain segs'
    where "readLines (e @ [LF]) True (([] @ [b]) @ ls) buf2 segs2 = (Ok ((([] @ [b]) @ ls) @ [e]), segs')"
      and "\<exists>lost. rest = lost @ concat segs'" by blast
  with 1 3 show ?thesis by auto
qed


text \<open>
  Claim C1, as amended.  For a valid reply to a command \<open>LIST X\<close> (an opening line, data
  lines, the line \<open>END LIST X\<close>), however it is cut into segments, \<open>sendCommand\<close> returns
  every line of the reply in the original order, the opening line and the line
  \<open>END LIST X\<close> included; the data lines are the result without its first and its last
  element, the slice \<open>resp[1 : len(resp)-1]\<close> that the callers take.  The connection keeps
  the segments not yet read: of the bytes after the reply, those that arrived in one
  segment with its end are lost.
\<close>

theorem list_reply_keeps_framing_lines:
  assumes "HasPrefix cmd ''LIST ''" and "LF \<notin> set cmd"
    and "conn c = OpenConn segs"
    and "concat segs = b @ [LF] @ concat (map (\<lambda>l. l @ [LF]) ls)
                              @ (''END '' @ cmd) @ [LF] @ rest"
    and "LF \<notin> set b" and "b \<noteq> ''END '' @ cmd" and "\<not> HasPrefix b ''ERR ''"
    and "\<forall>l \<in> set ls. LF \<notin> set l \<and> l \<noteq> ''END '' @ cmd"
  shows "(\<exists>segs'. sendCommand cmd c =
           (Ok (b # ls @ [''END '' @ cmd]),
            c\<lparr>trace := trace c @ [Send (cmd @ [LF])], conn := OpenConn segs'\<rparr>) \<and>
           (\<exists>lost. rest = lost @ concat segs')) \<and>
         interior (b # ls @ [''END '' @ cmd]) = Some ls"
proof
  have e: "LF \<notin> set (''END '' @ cmd)" using assms(2) by (simp add: LF_def)
  from readLines_list_reply [OF assms(5,6) e assms(8,4)] obtain segs'
    where r: "readLines ((''END '' @ cmd) @ [LF]) True [] [] segs
               = (Ok (b # ls @ [''END '' @ cmd]), segs')"
      and lost: "\<exists>lost. rest = lost @ concat segs'" by blast
  have "sendCommand cmd c =
           (Ok (b # ls @ [''END '' @ cmd]),
            c\<lparr>trace := trace c @ [Send (cmd @ [LF])], conn := OpenConn segs'\<rparr>)"
    using LIST_endLine [OF assms(1)] assms(3,7) r
    by (simp add: sendCommand_def readResponse_def Let_def)
  with lost show "\<exists>segs'. sendCommand cmd c =
           (Ok (b # ls @ [''END '' @ cmd]),
            c\<lparr>trace := trace c @ [Send (cmd @ [LF])], conn := OpenConn segs'\<rparr>) \<and>
           (\<exists>lost. rest = lost @ concat segs')" by blast
  show "interior (b # ls @ [''END '' @ cmd]) = Some ls"
    by (simp add: interior_def butlast_append)
qed

theorem list_reply_keeps_framing_lines_witness:
  "HasPrefix ''LIST UPS'' ''LIST '' \<and> LF \<notin> set ''LIST UPS'' \<and>
   concat replyListUPS = ''BEGIN LIST UPS'' @ [LF]
         @ concat (map (\<lambda>l. l @ [LF]) [''UPS a '' @ [DQ] @ ''first'' @ [DQ]])
         @ (''END '' @ ''LIST UPS'') @ [LF] @ [] \<and>
   fst (sendCommand ''LIST UPS'' (clientOn (OpenConn replyListUPS) [])) =
     Ok [''BEGIN LIST UPS'', ''UPS a '' @ [DQ] @ ''first'' @ [DQ], ''END LIST UPS''] \<and>
   conn (snd (sendCommand ''LIST UPS'' (clientOn (OpenConn replyListUPS) []))) = OpenConn [] \<and>
   interior [''BEGIN LIST UPS'', ''UPS a '' @ [DQ] @ ''first'' @ [DQ], ''END LIST UPS'']
     = Some [''UPS a '' @ [DQ] @ ''first'' @ [DQ]]"
proof -
  have h: "HasPrefix ''LIST UPS'' ''LIST ''" "LF \<notin> set ''LIST UPS''"
    "conn (clientOn (OpenConn replyListUPS) []) = OpenConn replyListUPS"
    "concat replyListUPS = ''BEGIN LIST UPS'' @ [LF]
         @ concat (map (\<lambda>l. l @ [LF]) [''UPS a '' @ [DQ] @ ''first'' @ [DQ]])
         @ (''END '' @ ''LIST UPS'') @ [LF] @ []"
    "LF \<notin> set ''BEGIN LIST UPS''" "''BEGIN LIST UPS'' \<noteq> ''END '' @ ''LIST UPS''"
    "\<not> HasPrefix ''BEGIN LIST UPS'' ''ERR ''"
    "\<forall>l \<in> set [''UPS a '' @ [DQ] @ ''first'' @ [DQ]]. LF \<notin> set l \<and> l \<noteq> ''END '' @ ''LIST UPS''"
    by (simp_all add: clientOn_def replyListUPS_def LF_def DQ_def)
  have k: "conn (snd (sendCommand ''LIST UPS'' (clientOn (OpenConn replyListUPS) []))) = OpenConn []"
    by code_simp
  from list_reply_keeps_framing_lines [OF h] h(1,2,4) k show ?thesis by auto
qed

text \<open>Claim C1 as stated fails: on a reply to \<open>LIST UPS\<close> with one device the result has
  three lines, not the data line alone.\<close>

theorem list_reply_counterexample:
  "fst (sendCommand ''LIST UPS'' (clientOn (OpenConn replyListUPS) [])) =
     Ok [''BEGIN LIST UPS'', ''UPS a '' @ [DQ] @ ''first'' @ [DQ], ''END LIST UPS''] \<and>
   fst (sendCommand ''LIST UPS'' (clientOn (OpenConn replyListUPS) [])) \<noteq>
     Ok [''UPS a '' @ [DQ] @ ''first'' @ [DQ]]"
  by code_simp

section \<open>Status and identifier\<close>

lemma statusLoop_describe: "statusLoop codes ds = ds @ describe (ds = []) codes"
  by (induction codes arbitrary: ds) (auto split: option.splits)

lemma human_OL_CHRG: "Join (describe True (Fields ''OL CHRG'')) '', '' = ''Online, charging''"
  by code_simp

text \<open>What \<open>GetStatus\<close> computes: the descriptions of the codes of the raw status, joined
  with a comma and a space, and the raw status itself.  For \<open>OL CHRG\<close> these are
  \<open>Online, charging\<close> and \<open>OL CHRG\<close>.\<close>

lemma GetStatus_describe:
  "GetStatus u = (Join (describe True (Fields (rawStatus u))) '', '', rawStatus u)"
  by (simp add: GetStatus_def rawStatus_def Let_def statusLoop_describe)

lemma GetStatus_OL_CHRG:
  "GetStatus (deviceWithStatus ''OL CHRG'') = (''Online, charging'', ''OL CHRG'')"
  by code_simp

text \<open>
  Claim C5.  The claim has every description after the first lower-cased, \<open>Unknown\<close>
  included.  The code lower-cases the entries of the table only: at the raw status
  \<open>OL HB\<close>, whose second code the table does not have, it returns \<open>Online, Unknown\<close>
  where the claim gives \<open>Online, unknown\<close>.  The raw string is returned as it is.
\<close>

theorem GetStatus_unknown_not_lowered:
  "GetStatus (deviceWithStatus ''OL HB'') = (''Online, Unknown'', ''OL HB'') \<and>
   humanAsStated ''OL HB'' = ''Online, unknown''"
  by code_simp








section \<open>Reconnect\<close>

lemma sameSession_refl [simp]: "sameSession c c"
  by (simp add: sameSession_def)











end
